theory Spec2Isabelle
  imports Complex_Main
begin

section \<open>Values, contexts and the upstream secret store\<close>

text \<open>
  The gateway (\<^verbatim>\<open>vault/initvault.go\<close>) is a typed client over the Vault API. The Vault
  server, the local file system and the JSON codec are outside the repository, so every
  call to them is an input of the model: the record \<open>VaultAPI\<close> gives, for each call the
  gateway can issue, what that call returns. Every gateway operation returns the list of
  upstream calls it issued together with its own result. Logging is not modelled.
\<close>

text \<open>
  Go's \<^verbatim>\<open>interface{}\<close> values as they come out of a decoded JSON document. A JSON number
  is a \<^verbatim>\<open>float64\<close> under the default decoder of \<^verbatim>\<open>encoding/json\<close>, and a
  \<^verbatim>\<open>json.Number\<close> (a string type holding the literal) under a decoder set to
  \<^verbatim>\<open>UseNumber\<close>. The Vault client decodes the data of an \<^verbatim>\<open>api.Secret\<close> in the second
  way, so the numbers of an upstream response arrive as \<open>VNumber\<close>.
\<close>

datatype jvalue =
    VNil
  | VBool bool
  | VString string
  | VFloat64 real
  | VNumber string
  | VSlice "jvalue list"
  | VMap "(string \<times> jvalue) list"

text \<open>
  \<^verbatim>\<open>context.Context\<close>: the background context, the context of the inbound HTTP request
  (\<^verbatim>\<open>c.Request.Context()\<close>), and a context derived with a timeout in seconds.
\<close>

datatype Context =
    Background
  | RequestContext
  | WithTimeout Context nat

text \<open>
  A Go function returning \<^verbatim>\<open>(T, error)\<close> is checked for its error first everywhere in
  the source, so a call result is \<open>Inl message\<close> for a non-nil error and \<open>Inr value\<close>
  otherwise. A gateway operation can moreover fault (panic) on an unchecked type
  assertion.
\<close>

datatype 'a result = Panic | Error string | Ok 'a

text \<open>\<^verbatim>\<open>api.Secret\<close>: only \<^verbatim>\<open>Data\<close> is read; \<open>None\<close> is the nil map.\<close>

record Secret =
  Data :: "(string \<rightharpoonup> jvalue) option"

record MountInput =
  Type :: string
  Description :: string

record HealthResponse =
  Initialized :: bool
  Sealed :: bool

record VaultAPI =
  ListMounts :: "string + string list"
  Mount :: "string \<Rightarrow> MountInput \<Rightarrow> string option"
  WriteWithContext :: "Context \<Rightarrow> string \<Rightarrow> (string \<rightharpoonup> jvalue) \<Rightarrow> string + Secret option"
  ReadWithContext :: "Context \<Rightarrow> string \<Rightarrow> string + Secret option"
  ListWithContext :: "Context \<Rightarrow> string \<Rightarrow> string + Secret option"
  DeleteWithContext :: "Context \<Rightarrow> string \<Rightarrow> string + Secret option"
  HealthWithContext :: "Context \<Rightarrow> string + HealthResponse"
  ReadFile :: "string \<Rightarrow> string + string"

text \<open>
  \<open>ListMounts\<close> gives the paths (the keys) of the mount table; the loop of \<open>Initialize\<close>
  reads nothing else of it.
\<close>

datatype vault_call =
    CallListMounts
  | CallMount string MountInput
  | CallWrite Context string "string \<rightharpoonup> jvalue"
  | CallRead Context string
  | CallList Context string
  | CallDelete Context string
  | CallHealth Context
  | CallReadFile string

text \<open>\<^verbatim>\<open>config.GCPConfig\<close> (\<^verbatim>\<open>config/vault.go\<close>).\<close>

record GCPConfig =
  ProjectID :: string
  ServiceAccountPath :: string
  DefaultTokenScopes :: string
  DefaultTTL :: string
  MaxTTL :: string
  DisableAutomatedRotation :: bool

text \<open>
  The request and response structures of \<^verbatim>\<open>vault/initvault.go\<close>. Isabelle record fields
  are global names, so a field name that two Go structs share carries the struct's
  initial as a suffix in all but one of them (\<open>MaxTTL_r\<close> is \<^verbatim>\<open>RolesetRequest.MaxTTL\<close>).

  \<^verbatim>\<open>RolesetRequest.Bindings\<close> is declared as \<^verbatim>\<open>map[string]interface{}\<close> and the gateway
  uses it so (\<^verbatim>\<open>req.Bindings != nil && len(req.Bindings) > 0\<close>), while the handler file
  converts the same field to and from text (\<^verbatim>\<open>[]byte(req.Bindings)\<close>,
  \<^verbatim>\<open>req.Bindings = string(bindingsJSON)\<close>). The record therefore leaves the type of the
  field open, and each function is modelled at the type its own text uses: the gateway at
  an optional association list (\<open>None\<close> is the nil map), the handler at a string.
\<close>

record 'b RolesetRequest =
  Project :: string
  SecretType :: string
  TokenScopes :: string
  Bindings :: 'b
  TTL :: string
  MaxTTL_r :: string

record TokenResponse =
  Token :: string
  TokenTTL :: string
  ExpiresAtSeconds :: int

record ServiceAccountKeyResponse =
  PrivateKeyData :: string
  KeyAlgorithm :: string
  KeyType :: string
  KeyID :: string

section \<open>The gateway\<close>

subsection \<open>Helpers of the Go runtime and library\<close>

text \<open>\<^verbatim>\<open>strings.HasSuffix\<close> and \<^verbatim>\<open>strings.TrimSuffix\<close>: at most one copy of the suffix goes.\<close>

definition HasSuffix :: "string \<Rightarrow> string \<Rightarrow> bool" where
  "HasSuffix s suffix =
     (length suffix \<le> length s \<and> drop (length s - length suffix) s = suffix)"

definition TrimSuffix :: "string \<Rightarrow> string \<Rightarrow> string" where
  "TrimSuffix s suffix =
     (if HasSuffix s suffix then take (length s - length suffix) s else s)"

text \<open>The verb \<^verbatim>\<open>%v\<close> of \<^verbatim>\<open>fmt\<close> on a bool.\<close>

definition fmt_bool :: "bool \<Rightarrow> string" where
  "fmt_bool b = (if b then ''true'' else ''false'')"

text \<open>
  The unchecked type assertions \<^verbatim>\<open>m[k].(string)\<close> and \<^verbatim>\<open>m[k].(float64)\<close> on a map entry:
  \<open>None\<close> is the run-time panic, raised when the key is absent (a nil interface) or holds
  a value of another dynamic type. A \<^verbatim>\<open>json.Number\<close> is of neither type, though its
  underlying type is \<^verbatim>\<open>string\<close>: a type assertion compares dynamic types exactly.
\<close>

fun assertString :: "jvalue option \<Rightarrow> string option" where
  "assertString (Some (VString s)) = Some s"
| "assertString _ = None"

fun assertFloat64 :: "jvalue option \<Rightarrow> real option" where
  "assertFloat64 (Some (VFloat64 r)) = Some r"
| "assertFloat64 _ = None"

text \<open>
  The conversion \<^verbatim>\<open>int64(f)\<close> truncates towards zero. When the truncated value is outside
  the range of int64, Go leaves the result to the implementation; the model takes the
  result of the compiler for amd64, which is the least int64.
\<close>

definition int64_of_float64 :: "real \<Rightarrow> int" where
  "int64_of_float64 r =
     (let t = (if 0 \<le> r then \<lfloor>r\<rfloor> else \<lceil>r\<rceil>) in
      if - (2 ^ 63) \<le> t \<and> t < 2 ^ 63 then t else - (2 ^ 63))"

subsection \<open>Initialize and configureGCPEngine\<close>

text \<open>The loop over the mount table, with its \<^verbatim>\<open>break\<close>.\<close>

fun gcpMountExists :: "string list \<Rightarrow> bool" where
  "gcpMountExists [] = False"
| "gcpMountExists (path # rest) =
     (if TrimSuffix path ''/'' = ''gcp'' then True else gcpMountExists rest)"

definition configData :: "GCPConfig \<Rightarrow> (string \<rightharpoonup> jvalue)" where
  "configData cfg =
     [''ttl'' \<mapsto> VString (DefaultTTL cfg),
      ''max_ttl'' \<mapsto> VString (MaxTTL cfg),
      ''disable_automated_rotation'' \<mapsto> VBool (DisableAutomatedRotation cfg)]"

text \<open>Lines 133 to 139: the write of the configuration and its error wrapping.\<close>

definition writeConfig ::
  "VaultAPI \<Rightarrow> Context \<Rightarrow> (string \<rightharpoonup> jvalue) \<Rightarrow> vault_call list \<times> unit result" where
  "writeConfig api ctx data =
     (case WriteWithContext api ctx ''gcp/config'' data of
        Inl err \<Rightarrow>
          ([CallWrite ctx ''gcp/config'' data],
           Error (''failed to configure GCP engine: '' @ err))
      | Inr _ \<Rightarrow> ([CallWrite ctx ''gcp/config'' data], Ok ()))"

definition configureGCPEngine ::
  "GCPConfig \<Rightarrow> VaultAPI \<Rightarrow> Context \<Rightarrow> vault_call list \<times> unit result" where
  "configureGCPEngine cfg api ctx =
     (if ServiceAccountPath cfg \<noteq> [] then
        (case ReadFile api (ServiceAccountPath cfg) of
           Inl err \<Rightarrow>
             ([CallReadFile (ServiceAccountPath cfg)],
              Error (''failed to read service account file: '' @ err))
         | Inr credentials \<Rightarrow>
             (case writeConfig api ctx ((configData cfg)(''credentials'' \<mapsto> VString credentials)) of
                (calls, r) \<Rightarrow> (CallReadFile (ServiceAccountPath cfg) # calls, r)))
      else writeConfig api ctx (configData cfg))"

definition gcpMountInput :: MountInput where
  "gcpMountInput =
     \<lparr>Type = ''gcp'',
      Description = ''GCP secrets engine for managing access tokens and service account keys''\<rparr>"

text \<open>Lines 106 to 112: the configuration step and the wrapping of its error.\<close>

definition configureStep ::
  "GCPConfig \<Rightarrow> VaultAPI \<Rightarrow> Context \<Rightarrow> vault_call list \<times> unit result" where
  "configureStep cfg api ctx =
     (case configureGCPEngine cfg api ctx of
        (calls, Error err) \<Rightarrow> (calls, Error (''failed to configure GCP engine: '' @ err))
      | (calls, r) \<Rightarrow> (calls, r))"

definition Initialize ::
  "GCPConfig \<Rightarrow> VaultAPI \<Rightarrow> Context \<Rightarrow> vault_call list \<times> unit result" where
  "Initialize cfg api ctx =
     (case ListMounts api of
        Inl err \<Rightarrow> ([CallListMounts], Error (''failed to list mounts: '' @ err))
      | Inr mounts \<Rightarrow>
          if \<not> gcpMountExists mounts then
            (case Mount api ''gcp'' gcpMountInput of
               Some err \<Rightarrow>
                 ([CallListMounts, CallMount ''gcp'' gcpMountInput],
                  Error (''failed to enable GCP secrets engine: '' @ err))
             | None \<Rightarrow>
                 (case configureStep cfg api ctx of
                    (calls, r) \<Rightarrow>
                      (CallListMounts # CallMount ''gcp'' gcpMountInput # calls, r)))
          else
            (case configureStep cfg api ctx of
               (calls, r) \<Rightarrow> (CallListMounts # calls, r)))"

subsection \<open>CreateRoleset\<close>

text \<open>Lines 145 to 166: the payload built from the request.\<close>

definition rolesetData ::
  "GCPConfig \<Rightarrow> ((string \<times> jvalue) list option) RolesetRequest \<Rightarrow> (string \<rightharpoonup> jvalue)" where
  "rolesetData cfg req =
     (let data = [''project'' \<mapsto> VString (Project req),
                  ''secret_type'' \<mapsto> VString (SecretType req)];
          data = (if TokenScopes req \<noteq> [] then data(''token_scopes'' \<mapsto> VString (TokenScopes req))
                  else if SecretType req = ''access_token''
                  then data(''token_scopes'' \<mapsto> VString (DefaultTokenScopes cfg))
                  else data);
          data = (case Bindings req of
                    Some kvs \<Rightarrow> if length kvs > 0 then data(''bindings'' \<mapsto> VMap kvs) else data
                  | None \<Rightarrow> data);
          data = (if TTL req \<noteq> [] then data(''ttl'' \<mapsto> VString (TTL req)) else data);
          data = (if MaxTTL_r req \<noteq> [] then data(''max_ttl'' \<mapsto> VString (MaxTTL_r req)) else data)
      in data)"

definition CreateRoleset ::
  "GCPConfig \<Rightarrow> VaultAPI \<Rightarrow> Context \<Rightarrow> string \<Rightarrow>
   ((string \<times> jvalue) list option) RolesetRequest \<Rightarrow> vault_call list \<times> unit result" where
  "CreateRoleset cfg api ctx name req =
     (let path = ''gcp/roleset/'' @ name; data = rolesetData cfg req in
      case WriteWithContext api ctx path data of
        Inl err \<Rightarrow> ([CallWrite ctx path data], Error (''failed to create roleset: '' @ err))
      | Inr _ \<Rightarrow> ([CallWrite ctx path data], Ok ()))"

subsection \<open>GetToken and GetServiceAccountKey\<close>

text \<open>
  Lines 204 to 208 and 226 to 231: the response is built by unchecked type assertions,
  any of which panics.
\<close>

definition tokenResponse :: "(string \<rightharpoonup> jvalue) \<Rightarrow> TokenResponse result" where
  "tokenResponse m =
     (case assertString (m ''token'') of
        None \<Rightarrow> Panic
      | Some token \<Rightarrow>
          (case assertString (m ''token_ttl'') of
             None \<Rightarrow> Panic
           | Some ttl \<Rightarrow>
               (case assertFloat64 (m ''expires_at_seconds'') of
                  None \<Rightarrow> Panic
                | Some e \<Rightarrow>
                    Ok \<lparr>Token = token, TokenTTL = ttl,
                        ExpiresAtSeconds = int64_of_float64 e\<rparr>)))"

definition keyResponse :: "(string \<rightharpoonup> jvalue) \<Rightarrow> ServiceAccountKeyResponse result" where
  "keyResponse m =
     (case assertString (m ''private_key_data'') of
        None \<Rightarrow> Panic
      | Some pk \<Rightarrow>
          (case assertString (m ''key_algorithm'') of
             None \<Rightarrow> Panic
           | Some alg \<Rightarrow>
               (case assertString (m ''key_type'') of
                  None \<Rightarrow> Panic
                | Some kt \<Rightarrow>
                    (case assertString (m ''key_id'') of
                       None \<Rightarrow> Panic
                     | Some kid \<Rightarrow>
                         Ok \<lparr>PrivateKeyData = pk, KeyAlgorithm = alg,
                             KeyType = kt, KeyID = kid\<rparr>))))"

text \<open>
  The upstream call of \<open>GetToken\<close>: a write carrying the TTL when one is given (the map
  \<^verbatim>\<open>data\<close> is then non-nil), a plain read otherwise.
\<close>

definition tokenCall ::
  "VaultAPI \<Rightarrow> Context \<Rightarrow> string \<Rightarrow> string \<Rightarrow> vault_call \<times> (string + Secret option)" where
  "tokenCall api ctx rolesetName ttl =
     (let path = ''gcp/token/'' @ rolesetName in
      if ttl \<noteq> [] then
        (CallWrite ctx path [''ttl'' \<mapsto> VString ttl],
         WriteWithContext api ctx path [''ttl'' \<mapsto> VString ttl])
      else (CallRead ctx path, ReadWithContext api ctx path))"

definition GetToken ::
  "VaultAPI \<Rightarrow> Context \<Rightarrow> string \<Rightarrow> string \<Rightarrow> vault_call list \<times> TokenResponse result" where
  "GetToken api ctx rolesetName ttl =
     (case tokenCall api ctx rolesetName ttl of
        (call, Inl err) \<Rightarrow> ([call], Error (''failed to get access token: '' @ err))
      | (call, Inr secret) \<Rightarrow>
          (case secret of
             None \<Rightarrow> ([call], Error ''no token data returned'')
           | Some s \<Rightarrow>
               (case Data s of
                  None \<Rightarrow> ([call], Error ''no token data returned'')
                | Some m \<Rightarrow> ([call], tokenResponse m))))"

definition GetServiceAccountKey ::
  "VaultAPI \<Rightarrow> Context \<Rightarrow> string \<Rightarrow> vault_call list \<times> ServiceAccountKeyResponse result" where
  "GetServiceAccountKey api ctx rolesetName =
     (let path = ''gcp/key/'' @ rolesetName in
      case ReadWithContext api ctx path of
        Inl err \<Rightarrow> ([CallRead ctx path], Error (''failed to get service account key: '' @ err))
      | Inr secret \<Rightarrow>
          (case secret of
             None \<Rightarrow> ([CallRead ctx path], Error ''no key data returned'')
           | Some s \<Rightarrow>
               (case Data s of
                  None \<Rightarrow> ([CallRead ctx path], Error ''no key data returned'')
                | Some m \<Rightarrow> ([CallRead ctx path], keyResponse m))))"

subsection \<open>ListRolesets and DeleteRoleset\<close>

text \<open>The loop \<^verbatim>\<open>rolesets[i] = key.(string)\<close>: \<open>None\<close> is the panic of the assertion.\<close>

fun keyStrings :: "jvalue list \<Rightarrow> string list option" where
  "keyStrings [] = Some []"
| "keyStrings (key # keys) =
     (case assertString (Some key) of
        None \<Rightarrow> None
      | Some s \<Rightarrow> (case keyStrings keys of None \<Rightarrow> None | Some rolesets \<Rightarrow> Some (s # rolesets)))"

definition ListRolesets ::
  "VaultAPI \<Rightarrow> Context \<Rightarrow> vault_call list \<times> string list result" where
  "ListRolesets api ctx =
     (case ListWithContext api ctx ''gcp/roleset'' of
        Inl err \<Rightarrow> ([CallList ctx ''gcp/roleset''], Error (''failed to list rolesets: '' @ err))
      | Inr secret \<Rightarrow>
          (case secret of
             None \<Rightarrow> ([CallList ctx ''gcp/roleset''], Ok [])
           | Some s \<Rightarrow>
               (case Data s of
                  None \<Rightarrow> ([CallList ctx ''gcp/roleset''], Ok [])
                | Some m \<Rightarrow>
                    (case m ''keys'' of
                       Some (VSlice keys) \<Rightarrow>
                         (case keyStrings keys of
                            None \<Rightarrow> ([CallList ctx ''gcp/roleset''], Panic)
                          | Some rolesets \<Rightarrow> ([CallList ctx ''gcp/roleset''], Ok rolesets))
                     | _ \<Rightarrow> ([CallList ctx ''gcp/roleset''], Ok [])))))"

definition DeleteRoleset ::
  "VaultAPI \<Rightarrow> Context \<Rightarrow> string \<Rightarrow> vault_call list \<times> unit result" where
  "DeleteRoleset api ctx name =
     (let path = ''gcp/roleset/'' @ name in
      case DeleteWithContext api ctx path of
        Inl err \<Rightarrow> ([CallDelete ctx path], Error (''failed to delete roleset: '' @ err))
      | Inr _ \<Rightarrow> ([CallDelete ctx path], Ok ()))"

subsection \<open>HealthCheck\<close>

definition HealthCheck :: "VaultAPI \<Rightarrow> Context \<Rightarrow> vault_call list \<times> unit result" where
  "HealthCheck api ctx =
     (let ctx' = WithTimeout ctx 5 in
      case HealthWithContext api ctx' of
        Inl err \<Rightarrow> ([CallHealth ctx'], Error (''vault health check failed: '' @ err))
      | Inr health \<Rightarrow>
          if \<not> Initialized health \<or> Sealed health
          then ([CallHealth ctx'],
                Error (''vault is not ready: initialized='' @ fmt_bool (Initialized health)
                       @ '', sealed='' @ fmt_bool (Sealed health)))
          else ([CallHealth ctx'], Ok ()))"

section \<open>The request handlers\<close>

text \<open>
  The handlers of \<^verbatim>\<open>handlers/handlers.go\<close>. A handler receives the path parameter
  \<^verbatim>\<open>name\<close> and the request body, and either writes one JSON response or panics. The body
  is \<open>None\<close> when it is not a JSON object the decoder accepts, and otherwise gives the
  JSON value found for each field name of the target structure.
\<close>

datatype response_data =
    TokenData TokenResponse
  | KeyData ServiceAccountKeyResponse
  | RolesetsData "string list" nat
  | NameData string

text \<open>
  The JSON documents the handlers write: \<^verbatim>\<open>ErrorResponse{Error, Details}\<close> (an empty
  \<^verbatim>\<open>Details\<close> is omitted from the document), \<^verbatim>\<open>SuccessResponse{Message, Data}\<close>, and a
  \<^verbatim>\<open>gin.H\<close> of strings.
\<close>

datatype payload =
    ErrorResponse string string
  | SuccessResponse string "response_data option"
  | H "(string \<times> string) list"

datatype handled = Panicked | Responded nat payload

text \<open>The gateway operations a handler invokes, with the context it passes.\<close>

datatype gw_call =
    GwHealthCheck Context
  | GwCreateRoleset Context string "string RolesetRequest"
  | GwGetToken Context string string
  | GwGetServiceAccountKey Context string
  | GwListRolesets Context
  | GwDeleteRoleset Context string

text \<open>
  A context is bound to the inbound request when it is derived from the request's
  context, and bounded when a timeout was put on it.
\<close>

fun derivedFromRequest :: "Context \<Rightarrow> bool" where
  "derivedFromRequest Background = False"
| "derivedFromRequest RequestContext = True"
| "derivedFromRequest (WithTimeout c n) = derivedFromRequest c"

fun hasTimeout :: "Context \<Rightarrow> bool" where
  "hasTimeout Background = False"
| "hasTimeout RequestContext = False"
| "hasTimeout (WithTimeout c n) = True"

fun gwContext :: "gw_call \<Rightarrow> Context" where
  "gwContext (GwHealthCheck c) = c"
| "gwContext (GwCreateRoleset c n r) = c"
| "gwContext (GwGetToken c n t) = c"
| "gwContext (GwGetServiceAccountKey c n) = c"
| "gwContext (GwListRolesets c) = c"
| "gwContext (GwDeleteRoleset c n) = c"

subsection \<open>Binding of request bodies\<close>

text \<open>
  The JSON decoder on a field of type string: an absent member and \<^verbatim>\<open>null\<close> leave the
  zero value, a JSON string is stored, any other value is a type error (\<open>None\<close>).
\<close>

fun bindString :: "jvalue option \<Rightarrow> string option" where
  "bindString None = Some []"
| "bindString (Some VNil) = Some []"
| "bindString (Some (VString s)) = Some s"
| "bindString (Some _) = None"

text \<open>
  The validator tags of \<^verbatim>\<open>RolesetRequest\<close>: \<^verbatim>\<open>required\<close> on \<^verbatim>\<open>Project\<close>, and
  \<^verbatim>\<open>required,oneof=access_token service_account_key\<close> on \<^verbatim>\<open>SecretType\<close>. A string passes
  \<^verbatim>\<open>required\<close> when it is not the zero value. The result is the error text, if any; the
  texts of the binding library are not reproduced, only told apart.
\<close>

definition validateRolesetRequest :: "'b RolesetRequest \<Rightarrow> string option" where
  "validateRolesetRequest req =
     (if Project req = [] then Some ''Project: failed on the required tag''
      else if SecretType req = [] then Some ''SecretType: failed on the required tag''
      else if SecretType req \<noteq> ''access_token'' \<and> SecretType req \<noteq> ''service_account_key''
      then Some ''SecretType: failed on the oneof tag''
      else None)"

text \<open>
  \<^verbatim>\<open>c.ShouldBindJSON(&req)\<close> at the handler's reading of the structure, where
  \<^verbatim>\<open>Bindings\<close> holds text: decode, then validate.
\<close>

definition ShouldBindJSON_RolesetRequest ::
  "(string \<rightharpoonup> jvalue) option \<Rightarrow> string + string RolesetRequest" where
  "ShouldBindJSON_RolesetRequest body =
     (case body of
        None \<Rightarrow> Inl ''invalid request body''
      | Some obj \<Rightarrow>
          (case (bindString (obj ''project''), bindString (obj ''secret_type''),
                 bindString (obj ''token_scopes''), bindString (obj ''bindings''),
                 bindString (obj ''ttl''), bindString (obj ''max_ttl'')) of
             (Some p, Some st, Some ts, Some b, Some t, Some mt) \<Rightarrow>
               (let req = \<lparr>Project = p, SecretType = st, TokenScopes = ts, Bindings = b,
                           TTL = t, MaxTTL_r = mt\<rparr> in
                case validateRolesetRequest req of
                  Some err \<Rightarrow> Inl err
                | None \<Rightarrow> Inr req)
           | _ \<Rightarrow> Inl ''json: cannot unmarshal value into field of type string''))"

text \<open>
  \<^verbatim>\<open>_ = c.ShouldBindJSON(&tokenReq)\<close>: the error is dropped, and \<^verbatim>\<open>TTL\<close> keeps its zero
  value unless the body gives a string for it. \<^verbatim>\<open>TokenRequest\<close> has this one field.
\<close>

definition bindTokenRequest :: "(string \<rightharpoonup> jvalue) option \<Rightarrow> string" where
  "bindTokenRequest body =
     (case body of
        None \<Rightarrow> []
      | Some obj \<Rightarrow> (case bindString (obj ''ttl'') of None \<Rightarrow> [] | Some t \<Rightarrow> t))"

text \<open>
  \<^verbatim>\<open>encoding/json\<close> on the text of the bindings. The codec is outside the repository
  and is a parameter, but for one fact: \<^verbatim>\<open>json.Unmarshal\<close> rejects the empty input
  (\<^verbatim>\<open>unexpected end of JSON input\<close>). A value of type \<^verbatim>\<open>map[string]interface{}\<close> is
  \<open>None\<close> when it is the nil map, which is what the text \<^verbatim>\<open>null\<close> decodes to and what is
  encoded as \<^verbatim>\<open>null\<close> again. The outer \<open>None\<close> of \<open>decodeObject\<close> is the error of the
  decoder; the error of \<^verbatim>\<open>json.Marshal\<close> is dropped by the handler.
\<close>

record JSONCodec =
  decodeObject :: "string \<Rightarrow> (string \<times> jvalue) list option option"
  encodeObject :: "(string \<times> jvalue) list option \<Rightarrow> string"

definition json_Unmarshal ::
  "JSONCodec \<Rightarrow> string \<Rightarrow> (string \<times> jvalue) list option option" where
  "json_Unmarshal codec data = (if data = [] then None else decodeObject codec data)"

definition json_Marshal :: "JSONCodec \<Rightarrow> (string \<times> jvalue) list option \<Rightarrow> string" where
  "json_Marshal codec m = encodeObject codec m"

subsection \<open>The handlers\<close>

text \<open>
  The handler \<^verbatim>\<open>CreateRoleset\<close>. It hands the request, with its bindings as text, to
  \<^verbatim>\<open>h.vaultClient.CreateRoleset\<close>, whose parameter is declared with bindings as a map; the
  operation invoked there is the parameter \<open>gateway\<close> of the model. Each handler returns
  the gateway operations it invoked, the upstream calls those issued, and its outcome.
\<close>

definition Handler_CreateRoleset ::
  "JSONCodec \<Rightarrow> (Context \<Rightarrow> string \<Rightarrow> string RolesetRequest \<Rightarrow> vault_call list \<times> unit result) \<Rightarrow>
   string \<Rightarrow> (string \<rightharpoonup> jvalue) option \<Rightarrow> gw_call list \<times> vault_call list \<times> handled" where
  "Handler_CreateRoleset codec gateway rolesetName body =
     (if rolesetName = [] then
        ([], [], Responded 400 (H [(''error'', ''Roleset name required'')]))
      else
        case ShouldBindJSON_RolesetRequest body of
          Inl err \<Rightarrow> ([], [], Responded 400 (H [(''error'', err)]))
        | Inr req \<Rightarrow>
            (case json_Unmarshal codec (Bindings req) of
               None \<Rightarrow> ([], [], Responded 400 (H [(''error'', ''Invalid bindings format'')]))
             | Some bindingsMap \<Rightarrow>
                 (let req' = req\<lparr>Bindings := json_Marshal codec bindingsMap\<rparr> in
                  case gateway Background rolesetName req' of
                    (calls, Error err) \<Rightarrow>
                      ([GwCreateRoleset Background rolesetName req'], calls,
                       Responded 500 (H [(''error'', err)]))
                  | (calls, Panic) \<Rightarrow>
                      ([GwCreateRoleset Background rolesetName req'], calls, Panicked)
                  | (calls, Ok _) \<Rightarrow>
                      ([GwCreateRoleset Background rolesetName req'], calls,
                       Responded 201 (H [(''message'', ''Roleset created successfully'')])))))"

definition Handler_HealthCheck :: "VaultAPI \<Rightarrow> gw_call list \<times> vault_call list \<times> handled" where
  "Handler_HealthCheck api =
     (let ctx = WithTimeout RequestContext 5 in
      case HealthCheck api ctx of
        (calls, Error err) \<Rightarrow>
          ([GwHealthCheck ctx], calls, Responded 503 (ErrorResponse ''Service unavailable'' err))
      | (calls, Panic) \<Rightarrow> ([GwHealthCheck ctx], calls, Panicked)
      | (calls, Ok _) \<Rightarrow>
          ([GwHealthCheck ctx], calls, Responded 200 (SuccessResponse ''Service is healthy'' None)))"

definition Handler_GetAccessToken ::
  "VaultAPI \<Rightarrow> string \<Rightarrow> (string \<rightharpoonup> jvalue) option \<Rightarrow> gw_call list \<times> vault_call list \<times> handled" where
  "Handler_GetAccessToken api rolesetName body =
     (if rolesetName = [] then
        ([], [], Responded 400 (ErrorResponse ''Roleset name is required'' []))
      else
        (let ttl = bindTokenRequest body; ctx = WithTimeout RequestContext 30 in
         case GetToken api ctx rolesetName ttl of
           (calls, Error err) \<Rightarrow>
             ([GwGetToken ctx rolesetName ttl], calls,
              Responded 500 (ErrorResponse ''Failed to generate access token'' err))
         | (calls, Panic) \<Rightarrow> ([GwGetToken ctx rolesetName ttl], calls, Panicked)
         | (calls, Ok token) \<Rightarrow>
             ([GwGetToken ctx rolesetName ttl], calls,
              Responded 200
                (SuccessResponse ''Access token generated successfully'' (Some (TokenData token))))))"

definition Handler_GetServiceAccountKey ::
  "VaultAPI \<Rightarrow> string \<Rightarrow> gw_call list \<times> vault_call list \<times> handled" where
  "Handler_GetServiceAccountKey api rolesetName =
     (if rolesetName = [] then
        ([], [], Responded 400 (ErrorResponse ''Roleset name is required'' []))
      else
        (let ctx = WithTimeout RequestContext 30 in
         case GetServiceAccountKey api ctx rolesetName of
           (calls, Error err) \<Rightarrow>
             ([GwGetServiceAccountKey ctx rolesetName], calls,
              Responded 500 (ErrorResponse ''Failed to generate service account key'' err))
         | (calls, Panic) \<Rightarrow> ([GwGetServiceAccountKey ctx rolesetName], calls, Panicked)
         | (calls, Ok key) \<Rightarrow>
             ([GwGetServiceAccountKey ctx rolesetName], calls,
              Responded 200
                (SuccessResponse ''Service account key generated successfully''
                   (Some (KeyData key))))))"

definition Handler_ListRolesets :: "VaultAPI \<Rightarrow> gw_call list \<times> vault_call list \<times> handled" where
  "Handler_ListRolesets api =
     (let ctx = WithTimeout RequestContext 15 in
      case ListRolesets api ctx of
        (calls, Error err) \<Rightarrow>
          ([GwListRolesets ctx], calls,
           Responded 500 (ErrorResponse ''Failed to list rolesets'' err))
      | (calls, Panic) \<Rightarrow> ([GwListRolesets ctx], calls, Panicked)
      | (calls, Ok rolesets) \<Rightarrow>
          ([GwListRolesets ctx], calls,
           Responded 200
             (SuccessResponse ''Rolesets retrieved successfully''
                (Some (RolesetsData rolesets (length rolesets))))))"

definition Handler_DeleteRoleset ::
  "VaultAPI \<Rightarrow> string \<Rightarrow> gw_call list \<times> vault_call list \<times> handled" where
  "Handler_DeleteRoleset api rolesetName =
     (if rolesetName = [] then
        ([], [], Responded 400 (ErrorResponse ''Roleset name is required'' []))
      else
        (let ctx = WithTimeout RequestContext 15 in
         case DeleteRoleset api ctx rolesetName of
           (calls, Error err) \<Rightarrow>
             ([GwDeleteRoleset ctx rolesetName], calls,
              Responded 500 (ErrorResponse ''Failed to delete roleset'' err))
         | (calls, Panic) \<Rightarrow> ([GwDeleteRoleset ctx rolesetName], calls, Panicked)
         | (calls, Ok _) \<Rightarrow>
             ([GwDeleteRoleset ctx rolesetName], calls,
              Responded 200
                (SuccessResponse ''Roleset deleted successfully'' (Some (NameData rolesetName))))))"

text \<open>
  \<^verbatim>\<open>ErrorHandlingMiddleware\<close>: \<^verbatim>\<open>gin.CustomRecovery\<close> runs the rest of the chain and, when
  that panics, writes the response of its callback.
\<close>

definition ErrorHandlingMiddleware ::
  "gw_call list \<times> vault_call list \<times> handled \<Rightarrow> gw_call list \<times> vault_call list \<times> handled" where
  "ErrorHandlingMiddleware next =
     (case next of
        (gws, calls, Panicked) \<Rightarrow>
          (gws, calls, Responded 500 (ErrorResponse ''Internal server error'' []))
      | (gws, calls, Responded status p) \<Rightarrow> (gws, calls, Responded status p))"

section \<open>Predicates of the properties and example environments\<close>

text \<open>A response without a body: the secret is nil, or its data is.\<close>

definition noData :: "Secret option \<Rightarrow> bool" where
  "noData secret = (case secret of None \<Rightarrow> True | Some s \<Rightarrow> Data s = None)"

text \<open>The upstream calls that enable a mount, and those that write to a path.\<close>

fun isMountCall :: "vault_call \<Rightarrow> bool" where
  "isMountCall (CallMount p i) = True"
| "isMountCall _ = False"

fun writesTo :: "string \<Rightarrow> vault_call \<Rightarrow> bool" where
  "writesTo path (CallWrite c p d) = (p = path)"
| "writesTo path _ = False"

text \<open>
  Environments on which the model is evaluated. In \<open>apiReady\<close> the engine is mounted at
  \<^verbatim>\<open>gcp/\<close>, the store is initialized and unsealed, every logical call succeeds with an
  empty response, and no local file can be read.
\<close>

definition apiReady :: VaultAPI where
  "apiReady =
     \<lparr>ListMounts = Inr [''sys/'', ''gcp/''],
      Mount = (\<lambda>p i. None),
      WriteWithContext = (\<lambda>c p d. Inr None),
      ReadWithContext = (\<lambda>c p. Inr None),
      ListWithContext = (\<lambda>c p. Inr None),
      DeleteWithContext = (\<lambda>c p. Inr None),
      HealthWithContext = (\<lambda>c. Inr \<lparr>Initialized = True, Sealed = False\<rparr>),
      ReadFile = (\<lambda>p. Inl ''no such file or directory'')\<rparr>"

definition apiUnmounted :: VaultAPI where
  "apiUnmounted = apiReady\<lparr>ListMounts := Inr [''sys/'', ''gcp//'']\<rparr>"

definition apiWriteDenied :: VaultAPI where
  "apiWriteDenied = apiReady\<lparr>WriteWithContext := (\<lambda>c p d. Inl ''permission denied'')\<rparr>"

definition apiSealed :: VaultAPI where
  "apiSealed = apiReady\<lparr>HealthWithContext := (\<lambda>c. Inr \<lparr>Initialized = True, Sealed = True\<rparr>)\<rparr>"

definition apiEmptyData :: VaultAPI where
  "apiEmptyData =
     apiReady\<lparr>ReadWithContext := (\<lambda>c p. Inr (Some \<lparr>Data = None\<rparr>)),
              ListWithContext := (\<lambda>c p. Inr (Some \<lparr>Data = None\<rparr>))\<rparr>"

definition apiPartialData :: VaultAPI where
  "apiPartialData =
     apiReady\<lparr>ReadWithContext :=
       (\<lambda>c p. Inr (Some \<lparr>Data = Some [''token'' \<mapsto> VString ''ya29'',
                                        ''private_key_data'' \<mapsto> VString ''a2V5''] \<rparr>))\<rparr>"

text \<open>
  A complete response to the request of a token, as the Vault client hands it over: the
  expiry is a \<^verbatim>\<open>json.Number\<close>.
\<close>

definition apiNumberData :: VaultAPI where
  "apiNumberData =
     apiReady\<lparr>ReadWithContext :=
       (\<lambda>c p. Inr (Some \<lparr>Data = Some [''token'' \<mapsto> VString ''ya29'',
                                        ''token_ttl'' \<mapsto> VString ''3599s'',
                                        ''expires_at_seconds'' \<mapsto> VNumber ''1700000000''] \<rparr>))\<rparr>"

definition apiWithFile :: VaultAPI where
  "apiWithFile = apiReady\<lparr>ReadFile := (\<lambda>p. Inr ''raw file contents'')\<rparr>"

definition cfgDefault :: GCPConfig where
  "cfgDefault =
     \<lparr>ProjectID = ''p'', ServiceAccountPath = [],
      DefaultTokenScopes = ''https://www.googleapis.com/auth/cloud-platform'',
      DefaultTTL = ''3600s'', MaxTTL = ''7200s'', DisableAutomatedRotation = False\<rparr>"

definition cfgWithFile :: GCPConfig where
  "cfgWithFile = cfgDefault\<lparr>ServiceAccountPath := ''/etc/sa.json''\<rparr>"

definition reqToken :: "((string \<times> jvalue) list option) RolesetRequest" where
  "reqToken =
     \<lparr>Project = ''p'', SecretType = ''access_token'', TokenScopes = [], Bindings = None,
      TTL = [], MaxTTL_r = []\<rparr>"

definition reqKey :: "((string \<times> jvalue) list option) RolesetRequest" where
  "reqKey = reqToken\<lparr>SecretType := ''service_account_key''\<rparr>"

text \<open>
  The request bodies \<^verbatim>\<open>{"project":"p","secret_type":"access_token"}\<close>,
  \<^verbatim>\<open>{"secret_type":"bogus"}\<close>, and the first one with \<^verbatim>\<open>"bindings":"{}"\<close> added.
\<close>

definition bodyR1 :: "(string \<rightharpoonup> jvalue) option" where
  "bodyR1 = Some [''project'' \<mapsto> VString ''p'', ''secret_type'' \<mapsto> VString ''access_token'']"

definition bodyBogus :: "(string \<rightharpoonup> jvalue) option" where
  "bodyBogus = Some [''secret_type'' \<mapsto> VString ''bogus'']"

definition bodyR1Bindings :: "(string \<rightharpoonup> jvalue) option" where
  "bodyR1Bindings =
     Some [''project'' \<mapsto> VString ''p'', ''secret_type'' \<mapsto> VString ''access_token'',
           ''bindings'' \<mapsto> VString ''{}'']"

text \<open>
  A codec that reads and writes the empty object and \<^verbatim>\<open>null\<close>, and a gateway operation
  that succeeds.
\<close>

definition codecEmptyObject :: JSONCodec where
  "codecEmptyObject =
     \<lparr>decodeObject = (\<lambda>s. if s = ''{}'' then Some (Some [])
                           else if s = ''null'' then Some None else None),
      encodeObject = (\<lambda>m. case m of None \<Rightarrow> ''null'' | Some kvs \<Rightarrow> ''{}'')\<rparr>"

definition gatewayOk ::
  "Context \<Rightarrow> string \<Rightarrow> string RolesetRequest \<Rightarrow> vault_call list \<times> unit result" where
  "gatewayOk ctx name req = ([CallWrite ctx (''gcp/roleset/'' @ name) Map.empty], Ok ())"

section \<open>Properties of the gateway\<close>

subsection \<open>createRoleset: the token scopes\<close>

lemma CreateRoleset_calls:
  "fst (CreateRoleset cfg api ctx name req) =
     [CallWrite ctx (''gcp/roleset/'' @ name) (rolesetData cfg req)]"
  by (simp add: CreateRoleset_def Let_def split: sum.splits)

lemma rolesetData_token_scopes:
  "rolesetData cfg req ''token_scopes'' =
     (if TokenScopes req \<noteq> [] then Some (VString (TokenScopes req))
      else if SecretType req = ''access_token'' then Some (VString (DefaultTokenScopes cfg))
      else None)"
  by (simp add: rolesetData_def Let_def split: option.splits)

text \<open>
  Claim C3. Every call of \<open>CreateRoleset\<close> issues exactly one write, to
  \<^verbatim>\<open>gcp/roleset/{name}\<close>, and the \<^verbatim>\<open>token_scopes\<close> entry of its payload is the caller's
  scopes when those are non-empty, otherwise the configured default scopes when the secret
  type is \<^verbatim>\<open>access_token\<close>, and otherwise the entry is absent.
\<close>

theorem CreateRoleset_token_scopes:
  "\<exists>data. fst (CreateRoleset cfg api ctx name req) = [CallWrite ctx (''gcp/roleset/'' @ name) data]
     \<and> data ''token_scopes'' =
         (if TokenScopes req \<noteq> [] then Some (VString (TokenScopes req))
          else if SecretType req = ''access_token'' then Some (VString (DefaultTokenScopes cfg))
          else None)"
proof (intro exI conjI)
  show "fst (CreateRoleset cfg api ctx name req) =
          [CallWrite ctx (''gcp/roleset/'' @ name) (rolesetData cfg req)]"
    by (rule CreateRoleset_calls)
  show "rolesetData cfg req ''token_scopes'' =
          (if TokenScopes req \<noteq> [] then Some (VString (TokenScopes req))
           else if SecretType req = ''access_token'' then Some (VString (DefaultTokenScopes cfg))
           else None)"
    by (rule rolesetData_token_scopes)
qed

theorem CreateRoleset_token_scopes_witness:
  "(\<exists>data. fst (CreateRoleset cfgDefault apiReady Background ''r1'' reqToken)
             = [CallWrite Background ''gcp/roleset/r1'' data]
      \<and> data ''token_scopes'' = Some (VString ''https://www.googleapis.com/auth/cloud-platform''))
   \<and> (\<exists>data. fst (CreateRoleset cfgDefault apiReady Background ''r1'' reqKey)
             = [CallWrite Background ''gcp/roleset/r1'' data]
      \<and> data ''token_scopes'' = None)"
proof
  have t: "TokenScopes reqToken = []" "SecretType reqToken = ''access_token''"
    by (simp_all add: reqToken_def)
  have d: "DefaultTokenScopes cfgDefault = ''https://www.googleapis.com/auth/cloud-platform''"
    by (simp add: cfgDefault_def)
  from CreateRoleset_token_scopes [of cfgDefault apiReady Background "''r1''" reqToken]
  show "\<exists>data. fst (CreateRoleset cfgDefault apiReady Background ''r1'' reqToken)
             = [CallWrite Background ''gcp/roleset/r1'' data]
      \<and> data ''token_scopes'' = Some (VString ''https://www.googleapis.com/auth/cloud-platform'')"
    by (simp only: t d append.simps if_True if_False not_True_eq_False simp_thms)
next
  have k: "TokenScopes reqKey = []" "SecretType reqKey \<noteq> ''access_token''"
    by (simp_all add: reqKey_def reqToken_def)
  from CreateRoleset_token_scopes [of cfgDefault apiReady Background "''r1''" reqKey]
  show "\<exists>data. fst (CreateRoleset cfgDefault apiReady Background ''r1'' reqKey)
             = [CallWrite Background ''gcp/roleset/r1'' data]
      \<and> data ''token_scopes'' = None"
    by (simp only: k append.simps if_True if_False not_True_eq_False simp_thms)
qed

subsection \<open>Responses without a body\<close>

text \<open>
  Claim C6. When the upstream call of \<open>GetToken\<close> (the write carrying the TTL, or the plain
  read) returns without an error a nil secret or a secret with nil data, \<open>GetToken\<close> returns
  the error \<^verbatim>\<open>no token data returned\<close>; in the same situation \<open>GetServiceAccountKey\<close>
  returns the error \<^verbatim>\<open>no key data returned\<close>. Neither returns a success.
\<close>

theorem no_data_is_an_error:
  "(snd (tokenCall api ctx rolesetName ttl) = Inr secret \<and> noData secret
      \<longrightarrow> snd (GetToken api ctx rolesetName ttl) = Error ''no token data returned'')
   \<and> (ReadWithContext api ctx (''gcp/key/'' @ rolesetName) = Inr secret \<and> noData secret
      \<longrightarrow> snd (GetServiceAccountKey api ctx rolesetName) = Error ''no key data returned'')"
  by (auto simp: GetToken_def GetServiceAccountKey_def noData_def Let_def
           split: prod.splits option.splits)

theorem no_data_is_an_error_witness:
  "snd (GetToken apiReady Background ''r1'' []) = Error ''no token data returned''
   \<and> snd (GetToken apiReady Background ''r1'' ''60s'') = Error ''no token data returned''
   \<and> snd (GetToken apiEmptyData Background ''r1'' []) = Error ''no token data returned''
   \<and> snd (GetServiceAccountKey apiEmptyData Background ''r1'') = Error ''no key data returned''"
  using no_data_is_an_error [of apiReady Background "''r1''" "[]" None]
        no_data_is_an_error [of apiReady Background "''r1''" "''60s''" None]
        no_data_is_an_error [of apiEmptyData Background "''r1''" "[]" "Some \<lparr>Data = None\<rparr>"]
  by (simp add: noData_def tokenCall_def apiReady_def apiEmptyData_def)

text \<open>
  Claim C7. When the upstream list call returns without an error a nil secret or a secret
  with nil data, \<open>ListRolesets\<close> succeeds with the empty sequence of names.
\<close>

theorem ListRolesets_no_data:
  assumes "ListWithContext api ctx ''gcp/roleset'' = Inr secret" and "noData secret"
  shows "ListRolesets api ctx = ([CallList ctx ''gcp/roleset''], Ok [])"
  using assms by (auto simp: ListRolesets_def noData_def split: option.splits)

theorem ListRolesets_no_data_witness:
  "noData None \<and> noData (Some \<lparr>Data = None\<rparr>)
   \<and> snd (ListRolesets apiReady Background) = Ok []
   \<and> snd (ListRolesets apiEmptyData Background) = Ok []"
  using ListRolesets_no_data [of apiReady Background None]
        ListRolesets_no_data [of apiEmptyData Background "Some \<lparr>Data = None\<rparr>"]
  by (simp add: noData_def apiReady_def apiEmptyData_def)

subsection \<open>healthCheck\<close>

text \<open>
  Claim C9. \<open>HealthCheck\<close> returns a failure exactly when the health probe itself errors,
  or the probe succeeds and reports the store as not initialized, or as sealed; it returns
  success exactly when the probe succeeds and reports the store initialized and unsealed.
\<close>

theorem HealthCheck_fails_iff:
  "(\<exists>msg. snd (HealthCheck api ctx) = Error msg) =
     (case HealthWithContext api (WithTimeout ctx 5) of
        Inl err \<Rightarrow> True
      | Inr health \<Rightarrow> \<not> Initialized health \<or> Sealed health)
   \<and> (snd (HealthCheck api ctx) = Ok ()) =
     (case HealthWithContext api (WithTimeout ctx 5) of
        Inl err \<Rightarrow> False
      | Inr health \<Rightarrow> Initialized health \<and> \<not> Sealed health)"
  by (simp add: HealthCheck_def Let_def split: sum.splits)

theorem HealthCheck_fails_iff_witness:
  "(\<exists>msg. snd (HealthCheck apiSealed Background) = Error msg)
   \<and> snd (HealthCheck apiReady Background) = Ok ()"
proof
  have s: "HealthWithContext apiSealed (WithTimeout Background 5)
             = Inr \<lparr>Initialized = True, Sealed = True\<rparr>"
    by (simp add: apiSealed_def)
  from HealthCheck_fails_iff [of apiSealed Background]
  show "\<exists>msg. snd (HealthCheck apiSealed Background) = Error msg"
    by (simp add: s)
next
  have r: "HealthWithContext apiReady (WithTimeout Background 5)
             = Inr \<lparr>Initialized = True, Sealed = False\<rparr>"
    by (simp add: apiReady_def)
  from HealthCheck_fails_iff [of apiReady Background]
  show "snd (HealthCheck apiReady Background) = Ok ()"
    by (simp add: r)
qed

subsection \<open>Initialize: the mount\<close>

lemma gcpMountExists_iff:
  "gcpMountExists mounts = (\<exists>path\<in>set mounts. TrimSuffix path ''/'' = ''gcp'')"
  by (induction mounts) simp_all

lemma writeConfig_calls:
  "fst (writeConfig api ctx data) = [CallWrite ctx ''gcp/config'' data]"
  by (simp add: writeConfig_def split: sum.splits)

lemma writeConfig_ok:
  "(snd (writeConfig api ctx data) = Ok ()) = (\<exists>s. WriteWithContext api ctx ''gcp/config'' data = Inr s)"
  by (simp add: writeConfig_def split: sum.splits)

lemma configureGCPEngine_calls:
  "fst (configureGCPEngine cfg api ctx) =
     (if ServiceAccountPath cfg \<noteq> [] then
        (case ReadFile api (ServiceAccountPath cfg) of
           Inl err \<Rightarrow> [CallReadFile (ServiceAccountPath cfg)]
         | Inr credentials \<Rightarrow>
             [CallReadFile (ServiceAccountPath cfg),
              CallWrite ctx ''gcp/config'' ((configData cfg)(''credentials'' \<mapsto> VString credentials))])
      else [CallWrite ctx ''gcp/config'' (configData cfg)])"
  by (simp add: configureGCPEngine_def writeConfig_calls split: sum.splits prod.splits)
     (metis fst_conv writeConfig_calls)

lemma configureGCPEngine_no_mount:
  "filter isMountCall (fst (configureGCPEngine cfg api ctx)) = []"
  by (simp add: configureGCPEngine_calls split: sum.splits)

lemma configureStep_calls:
  "fst (configureStep cfg api ctx) = fst (configureGCPEngine cfg api ctx)"
  by (simp add: configureStep_def split: prod.splits result.splits)

lemma configureStep_ok:
  "(snd (configureStep cfg api ctx) = Ok ()) = (snd (configureGCPEngine cfg api ctx) = Ok ())"
  by (simp add: configureStep_def split: prod.splits result.splits)

lemma Initialize_mounted:
  assumes "ListMounts api = Inr mounts" and "gcpMountExists mounts"
  shows "Initialize cfg api ctx =
           (CallListMounts # fst (configureStep cfg api ctx), snd (configureStep cfg api ctx))"
  using assms by (simp add: Initialize_def split: prod.splits)

lemma Initialize_unmounted:
  assumes "ListMounts api = Inr mounts" and "\<not> gcpMountExists mounts"
  shows "Initialize cfg api ctx =
           (case Mount api ''gcp'' gcpMountInput of
              Some err \<Rightarrow>
                ([CallListMounts, CallMount ''gcp'' gcpMountInput],
                 Error (''failed to enable GCP secrets engine: '' @ err))
            | None \<Rightarrow>
                (CallListMounts # CallMount ''gcp'' gcpMountInput # fst (configureStep cfg api ctx),
                 snd (configureStep cfg api ctx)))"
  using assms by (simp add: Initialize_def split: prod.splits option.splits)

lemma TrimSuffix_examples:
  "TrimSuffix ''gcp/'' ''/'' = ''gcp''" "TrimSuffix ''sys/'' ''/'' = ''sys''"
  "TrimSuffix ''gcp//'' ''/'' = ''gcp/''"
  by (simp_all add: TrimSuffix_def HasSuffix_def)

text \<open>
  Claim C1. Given a mount table that holds a path which, with one trailing \<^verbatim>\<open>/\<close>
  stripped, is \<^verbatim>\<open>gcp\<close>, \<open>Initialize\<close> issues no call that enables a mount, and it returns
  success exactly when the configuration of the engine that follows succeeds. Given a
  mount table with no such path, it issues exactly one such call, for an engine of type
  \<^verbatim>\<open>gcp\<close> at the path \<^verbatim>\<open>gcp\<close>.
\<close>

theorem Initialize_mount_idempotent:
  assumes "ListMounts api = Inr mounts"
  shows "((\<exists>path\<in>set mounts. TrimSuffix path ''/'' = ''gcp'') \<longrightarrow>
            filter isMountCall (fst (Initialize cfg api ctx)) = []
            \<and> (snd (Initialize cfg api ctx) = Ok ()) = (snd (configureGCPEngine cfg api ctx) = Ok ()))
       \<and> (\<not> (\<exists>path\<in>set mounts. TrimSuffix path ''/'' = ''gcp'') \<longrightarrow>
            filter isMountCall (fst (Initialize cfg api ctx)) = [CallMount ''gcp'' gcpMountInput]
            \<and> Type gcpMountInput = ''gcp'')"
proof (intro conjI impI)
  assume "\<exists>path\<in>set mounts. TrimSuffix path ''/'' = ''gcp''"
  then have m: "gcpMountExists mounts" by (simp add: gcpMountExists_iff)
  show "filter isMountCall (fst (Initialize cfg api ctx)) = []"
    by (simp add: Initialize_mounted [OF assms m] configureStep_calls configureGCPEngine_no_mount)
  show "(snd (Initialize cfg api ctx) = Ok ()) = (snd (configureGCPEngine cfg api ctx) = Ok ())"
    by (simp add: Initialize_mounted [OF assms m] configureStep_ok)
next
  assume "\<not> (\<exists>path\<in>set mounts. TrimSuffix path ''/'' = ''gcp'')"
  then have m: "\<not> gcpMountExists mounts" by (simp add: gcpMountExists_iff)
  show "filter isMountCall (fst (Initialize cfg api ctx)) = [CallMount ''gcp'' gcpMountInput]"
    by (simp add: Initialize_unmounted [OF assms m] configureStep_calls
          configureGCPEngine_no_mount split: option.splits)
  show "Type gcpMountInput = ''gcp''"
    by (simp add: gcpMountInput_def)
qed

theorem Initialize_mount_idempotent_witness:
  "ListMounts apiReady = Inr [''sys/'', ''gcp/'']
   \<and> filter isMountCall (fst (Initialize cfgDefault apiReady Background)) = []
   \<and> snd (Initialize cfgDefault apiReady Background) = Ok ()
   \<and> ListMounts apiUnmounted = Inr [''sys/'', ''gcp//'']
   \<and> filter isMountCall (fst (Initialize cfgDefault apiUnmounted Background))
       = [CallMount ''gcp'' gcpMountInput]"
proof -
  have r: "ListMounts apiReady = Inr [''sys/'', ''gcp/'']"
    by (simp add: apiReady_def)
  have u: "ListMounts apiUnmounted = Inr [''sys/'', ''gcp//'']"
    by (simp add: apiUnmounted_def)
  have ok: "snd (configureGCPEngine cfgDefault apiReady Background) = Ok ()"
    by (simp add: configureGCPEngine_def writeConfig_def cfgDefault_def apiReady_def)
  from Initialize_mount_idempotent [OF r, of cfgDefault Background]
  have a: "filter isMountCall (fst (Initialize cfgDefault apiReady Background)) = []
           \<and> snd (Initialize cfgDefault apiReady Background) = Ok ()"
    by (simp add: TrimSuffix_examples ok)
  from Initialize_mount_idempotent [OF u, of cfgDefault Background]
  have b: "filter isMountCall (fst (Initialize cfgDefault apiUnmounted Background))
             = [CallMount ''gcp'' gcpMountInput]"
    by (simp add: TrimSuffix_examples)
  from r u a b show ?thesis by simp
qed

text \<open>
  With the engine mounted, \<open>Initialize\<close> does not always return success: when the store
  refuses the write of the configuration, the error reaches the caller, wrapped twice.
\<close>

theorem Initialize_mounted_config_denied:
  "TrimSuffix ''gcp/'' ''/'' = ''gcp''
   \<and> ListMounts apiWriteDenied = Inr [''sys/'', ''gcp/'']
   \<and> Initialize cfgDefault apiWriteDenied Background =
       ([CallListMounts, CallWrite Background ''gcp/config'' (configData cfgDefault)],
        Error ''failed to configure GCP engine: failed to configure GCP engine: permission denied'')"
proof -
  have l: "ListMounts apiWriteDenied = Inr [''sys/'', ''gcp/'']"
    by (simp add: apiWriteDenied_def apiReady_def)
  have m: "gcpMountExists [''sys/'', ''gcp/'']"
    by (simp add: TrimSuffix_examples)
  have w: "writeConfig apiWriteDenied Background (configData cfgDefault) =
             ([CallWrite Background ''gcp/config'' (configData cfgDefault)],
              Error ''failed to configure GCP engine: permission denied'')"
    by (simp add: writeConfig_def apiWriteDenied_def)
  have p: "ServiceAccountPath cfgDefault = []"
    by (simp add: cfgDefault_def)
  have c: "configureStep cfgDefault apiWriteDenied Background =
             ([CallWrite Background ''gcp/config'' (configData cfgDefault)],
              Error ''failed to configure GCP engine: failed to configure GCP engine: permission denied'')"
    by (simp add: configureStep_def configureGCPEngine_def p w)
  show ?thesis
    by (simp add: l Initialize_mounted [OF l m] c TrimSuffix_examples)
qed

subsection \<open>Initialize: the configuration of the engine\<close>

lemma configData_entries:
  "configData cfg ''ttl'' = Some (VString (DefaultTTL cfg))"
  "configData cfg ''max_ttl'' = Some (VString (MaxTTL cfg))"
  "configData cfg ''disable_automated_rotation'' = Some (VBool (DisableAutomatedRotation cfg))"
  "configData cfg ''credentials'' = None"
  by (simp_all add: configData_def)

lemma dom_configData:
  "dom (configData cfg) = {''ttl'', ''max_ttl'', ''disable_automated_rotation''}"
  by (auto simp add: configData_def)

lemma dom_configData_credentials:
  "dom ((configData cfg)(''credentials'' \<mapsto> v))
     = {''ttl'', ''max_ttl'', ''disable_automated_rotation'', ''credentials''}"
  by (auto simp add: configData_def)

lemma Initialize_config_write:
  assumes "ListMounts api = Inr mounts"
    and "gcpMountExists mounts \<or> Mount api ''gcp'' gcpMountInput = None"
  shows "filter (writesTo ''gcp/config'') (fst (Initialize cfg api ctx)) =
           filter (writesTo ''gcp/config'') (fst (configureGCPEngine cfg api ctx))"
proof (cases "gcpMountExists mounts")
  case True
  show ?thesis
    by (simp add: Initialize_mounted [OF assms(1) True] configureStep_calls)
next
  case False
  with assms(2) have n: "Mount api ''gcp'' gcpMountInput = None" by simp
  show ?thesis
    by (simp add: Initialize_unmounted [OF assms(1) False] n configureStep_calls)
qed

text \<open>
  Claim C2. When the listing of the mounts succeeds, and the engine is mounted already or
  the call enabling it succeeds, and no credentials file is configured or the configured
  one can be read, \<open>Initialize\<close> issues exactly one write to \<^verbatim>\<open>gcp/config\<close>. Its payload
  holds \<^verbatim>\<open>ttl\<close>, \<^verbatim>\<open>max_ttl\<close> and \<^verbatim>\<open>disable_automated_rotation\<close> from the settings, holds
  \<^verbatim>\<open>credentials\<close> (the contents of the file) exactly when a path is configured, and holds
  no other entry.
\<close>

theorem Initialize_configures_engine:
  assumes "ListMounts api = Inr mounts"
    and "(\<exists>path\<in>set mounts. TrimSuffix path ''/'' = ''gcp'') \<or> Mount api ''gcp'' gcpMountInput = None"
    and "ServiceAccountPath cfg = [] \<or> ReadFile api (ServiceAccountPath cfg) = Inr credentials"
  shows "\<exists>data. filter (writesTo ''gcp/config'') (fst (Initialize cfg api ctx))
                  = [CallWrite ctx ''gcp/config'' data]
           \<and> data ''ttl'' = Some (VString (DefaultTTL cfg))
           \<and> data ''max_ttl'' = Some (VString (MaxTTL cfg))
           \<and> data ''disable_automated_rotation'' = Some (VBool (DisableAutomatedRotation cfg))
           \<and> data ''credentials'' =
               (if ServiceAccountPath cfg \<noteq> [] then Some (VString credentials) else None)
           \<and> dom data =
               (if ServiceAccountPath cfg \<noteq> []
                then {''ttl'', ''max_ttl'', ''disable_automated_rotation'', ''credentials''}
                else {''ttl'', ''max_ttl'', ''disable_automated_rotation''})"
proof -
  from assms(2) have m: "gcpMountExists mounts \<or> Mount api ''gcp'' gcpMountInput = None"
    by (simp add: gcpMountExists_iff)
  note w = Initialize_config_write [OF assms(1) m, of cfg ctx]
  show ?thesis
  proof (cases "ServiceAccountPath cfg = []")
    case True
    have c: "filter (writesTo ''gcp/config'') (fst (Initialize cfg api ctx))
            = [CallWrite ctx ''gcp/config'' (configData cfg)]"
      by (simp add: w configureGCPEngine_calls True)
    show ?thesis
    proof (intro exI [of _ "configData cfg"] conjI)
      show "filter (writesTo ''gcp/config'') (fst (Initialize cfg api ctx))
            = [CallWrite ctx ''gcp/config'' (configData cfg)]" by (rule c)
      show "configData cfg ''ttl'' = Some (VString (DefaultTTL cfg))"
        by (rule configData_entries)
      show "configData cfg ''max_ttl'' = Some (VString (MaxTTL cfg))"
        by (rule configData_entries)
      show "configData cfg ''disable_automated_rotation'' = Some (VBool (DisableAutomatedRotation cfg))"
        by (rule configData_entries)
      show "configData cfg ''credentials'' =
               (if ServiceAccountPath cfg \<noteq> [] then Some (VString credentials) else None)"
        by (simp only: True configData_entries not_True_eq_False if_False simp_thms)
      show "dom (configData cfg) =
               (if ServiceAccountPath cfg \<noteq> []
                then {''ttl'', ''max_ttl'', ''disable_automated_rotation'', ''credentials''}
                else {''ttl'', ''max_ttl'', ''disable_automated_rotation''})"
        by (simp only: True dom_configData not_True_eq_False if_False simp_thms)
    qed
  next
    case False
    with assms(3) have r: "ReadFile api (ServiceAccountPath cfg) = Inr credentials" by simp
    let ?d = "(configData cfg)(''credentials'' \<mapsto> VString credentials)"
    have c: "filter (writesTo ''gcp/config'') (fst (Initialize cfg api ctx))
            = [CallWrite ctx ''gcp/config'' ?d]"
      by (simp add: w configureGCPEngine_calls False r)
    show ?thesis
    proof (intro exI [of _ ?d] conjI)
      show "filter (writesTo ''gcp/config'') (fst (Initialize cfg api ctx))
            = [CallWrite ctx ''gcp/config'' ?d]" by (rule c)
      show "?d ''ttl'' = Some (VString (DefaultTTL cfg))"
        by (simp add: configData_entries)
      show "?d ''max_ttl'' = Some (VString (MaxTTL cfg))"
        by (simp add: configData_entries)
      show "?d ''disable_automated_rotation'' = Some (VBool (DisableAutomatedRotation cfg))"
        by (simp add: configData_entries)
      show "?d ''credentials'' =
               (if ServiceAccountPath cfg \<noteq> [] then Some (VString credentials) else None)"
        by (simp add: False)
      show "dom ?d =
               (if ServiceAccountPath cfg \<noteq> []
                then {''ttl'', ''max_ttl'', ''disable_automated_rotation'', ''credentials''}
                else {''ttl'', ''max_ttl'', ''disable_automated_rotation''})"
        by (simp only: False dom_configData_credentials not_False_eq_True if_True simp_thms)
    qed
  qed
qed

theorem Initialize_configures_engine_witness:
  "ListMounts apiWithFile = Inr [''sys/'', ''gcp/'']
   \<and> ReadFile apiWithFile (ServiceAccountPath cfgWithFile) = Inr ''raw file contents''
   \<and> (\<exists>data. filter (writesTo ''gcp/config'') (fst (Initialize cfgWithFile apiWithFile Background))
                = [CallWrite Background ''gcp/config'' data]
         \<and> data ''ttl'' = Some (VString ''3600s'')
         \<and> data ''credentials'' = Some (VString ''raw file contents'')
         \<and> dom data = {''ttl'', ''max_ttl'', ''disable_automated_rotation'', ''credentials''})
   \<and> ListMounts apiUnmounted = Inr [''sys/'', ''gcp//'']
   \<and> Mount apiUnmounted ''gcp'' gcpMountInput = None
   \<and> (\<exists>data. filter (writesTo ''gcp/config'') (fst (Initialize cfgDefault apiUnmounted Background))
                = [CallWrite Background ''gcp/config'' data]
         \<and> data ''credentials'' = None
         \<and> dom data = {''ttl'', ''max_ttl'', ''disable_automated_rotation''})"
proof -
  have l: "ListMounts apiWithFile = Inr [''sys/'', ''gcp/'']"
    by (simp add: apiWithFile_def apiReady_def)
  have f: "ReadFile apiWithFile (ServiceAccountPath cfgWithFile) = Inr ''raw file contents''"
    by (simp add: apiWithFile_def)
  have p: "(ServiceAccountPath cfgWithFile \<noteq> []) = True" "DefaultTTL cfgWithFile = ''3600s''"
    by (simp_all add: cfgWithFile_def cfgDefault_def)
  have e: "(\<exists>path\<in>set [''sys/'', ''gcp/'']. TrimSuffix path ''/'' = ''gcp'')
             \<or> Mount apiWithFile ''gcp'' gcpMountInput = None"
    by (simp add: TrimSuffix_examples)
  from Initialize_configures_engine [OF l e disjI2 [OF f], of Background]
  have a: "\<exists>data. filter (writesTo ''gcp/config'') (fst (Initialize cfgWithFile apiWithFile Background))
                = [CallWrite Background ''gcp/config'' data]
         \<and> data ''ttl'' = Some (VString ''3600s'')
         \<and> data ''credentials'' = Some (VString ''raw file contents'')
         \<and> dom data = {''ttl'', ''max_ttl'', ''disable_automated_rotation'', ''credentials''}"
    unfolding p if_True by (elim exE conjE, intro exI conjI)
  have u: "ListMounts apiUnmounted = Inr [''sys/'', ''gcp//'']"
    by (simp add: apiUnmounted_def)
  have n: "Mount apiUnmounted ''gcp'' gcpMountInput = None"
    by (simp add: apiUnmounted_def apiReady_def)
  have q: "ServiceAccountPath cfgDefault = []"
    by (simp add: cfgDefault_def)
  have q': "(ServiceAccountPath cfgDefault \<noteq> []) = False"
    by (simp add: q)
  from Initialize_configures_engine [OF u disjI2 [OF n] disjI1 [OF q], of Background undefined]
  have b: "\<exists>data. filter (writesTo ''gcp/config'') (fst (Initialize cfgDefault apiUnmounted Background))
                = [CallWrite Background ''gcp/config'' data]
         \<and> data ''credentials'' = None
         \<and> dom data = {''ttl'', ''max_ttl'', ''disable_automated_rotation''}"
    unfolding q' if_False by (elim exE conjE, intro exI conjI)
  from l f a u n b show ?thesis by (intro conjI)
qed

text \<open>
  With the engine mounted and a credentials file configured that cannot be read,
  \<open>Initialize\<close> returns an error and never writes to \<^verbatim>\<open>gcp/config\<close>.
\<close>

theorem Initialize_unreadable_credentials:
  "TrimSuffix ''gcp/'' ''/'' = ''gcp''
   \<and> ListMounts apiReady = Inr [''sys/'', ''gcp/'']
   \<and> ServiceAccountPath cfgWithFile = ''/etc/sa.json''
   \<and> Initialize cfgWithFile apiReady Background =
       ([CallListMounts, CallReadFile ''/etc/sa.json''],
        Error ''failed to configure GCP engine: failed to read service account file: no such file or directory'')
   \<and> filter (writesTo ''gcp/config'') (fst (Initialize cfgWithFile apiReady Background)) = []"
proof -
  have l: "ListMounts apiReady = Inr [''sys/'', ''gcp/'']"
    by (simp add: apiReady_def)
  have m: "gcpMountExists [''sys/'', ''gcp/'']"
    by (simp add: TrimSuffix_examples)
  have p: "ServiceAccountPath cfgWithFile = ''/etc/sa.json''"
    by (simp add: cfgWithFile_def)
  have f: "ReadFile apiReady ''/etc/sa.json'' = Inl ''no such file or directory''"
    by (simp add: apiReady_def)
  have c: "configureStep cfgWithFile apiReady Background =
             ([CallReadFile ''/etc/sa.json''],
              Error ''failed to configure GCP engine: failed to read service account file: no such file or directory'')"
    by (simp add: configureStep_def configureGCPEngine_def p f)
  have i: "Initialize cfgWithFile apiReady Background =
       ([CallListMounts, CallReadFile ''/etc/sa.json''],
        Error ''failed to configure GCP engine: failed to read service account file: no such file or directory'')"
    by (simp add: Initialize_mounted [OF l m] c)
  have w: "filter (writesTo ''gcp/config'') (fst (Initialize cfgWithFile apiReady Background)) = []"
    by (simp add: i)
  from TrimSuffix_examples(1) l p i w show ?thesis by (intro conjI)
qed

text \<open>
  The same in general: whenever the configured credentials file cannot be read,
  \<open>Initialize\<close> returns the error of the read, wrapped, and writes nothing to
  \<^verbatim>\<open>gcp/config\<close>.
\<close>

lemma configureStep_unreadable:
  assumes "ServiceAccountPath cfg \<noteq> []" and "ReadFile api (ServiceAccountPath cfg) = Inl err"
  shows "configureStep cfg api ctx =
           ([CallReadFile (ServiceAccountPath cfg)],
            Error (''failed to configure GCP engine: '' @ ''failed to read service account file: '' @ err))"
  using assms by (simp add: configureStep_def configureGCPEngine_def)

lemma Initialize_unreadable_aborts:
  assumes "ListMounts api = Inr mounts"
    and "gcpMountExists mounts \<or> Mount api ''gcp'' gcpMountInput = None"
    and "ServiceAccountPath cfg \<noteq> []" and "ReadFile api (ServiceAccountPath cfg) = Inl err"
  shows "filter (writesTo ''gcp/config'') (fst (Initialize cfg api ctx)) = []
         \<and> snd (Initialize cfg api ctx) =
             Error (''failed to configure GCP engine: '' @ ''failed to read service account file: '' @ err)"
proof (cases "gcpMountExists mounts")
  case True
  show ?thesis
    by (simp add: Initialize_mounted [OF assms(1) True] configureStep_unreadable [OF assms(3,4)])
next
  case False
  with assms(2) have n: "Mount api ''gcp'' gcpMountInput = None" by simp
  show ?thesis
    by (simp add: Initialize_unmounted [OF assms(1) False] n configureStep_unreadable [OF assms(3,4)])
qed

section \<open>Properties of the request handlers\<close>

subsection \<open>Create roleset: requests that fail validation\<close>

lemma bindString_nonempty:
  assumes "bindString v = Some s" and "s \<noteq> []"
  shows "v = Some (VString s)"
  using assms by (cases v rule: bindString.cases) simp_all

lemma ShouldBindJSON_RolesetRequest_Inr:
  assumes "ShouldBindJSON_RolesetRequest (Some obj) = Inr req"
  shows "bindString (obj ''project'') = Some (Project req)
         \<and> bindString (obj ''secret_type'') = Some (SecretType req)
         \<and> validateRolesetRequest req = None"
  using assms
  by (auto simp: ShouldBindJSON_RolesetRequest_def Let_def split: option.splits)

lemma validateRolesetRequest_None:
  assumes "validateRolesetRequest req = None"
  shows "Project req \<noteq> [] \<and> SecretType req \<noteq> []
         \<and> (SecretType req = ''access_token'' \<or> SecretType req = ''service_account_key'')"
  using assms by (simp add: validateRolesetRequest_def split: if_splits)

lemma ShouldBindJSON_RolesetRequest_accepts:
  assumes "ShouldBindJSON_RolesetRequest (Some obj) = Inr req"
  shows "obj ''project'' \<noteq> None
         \<and> (obj ''secret_type'' = Some (VString ''access_token'')
            \<or> obj ''secret_type'' = Some (VString ''service_account_key''))"
proof -
  note b = ShouldBindJSON_RolesetRequest_Inr [OF assms]
  note v = validateRolesetRequest_None [OF conjunct2 [OF conjunct2 [OF b]]]
  from bindString_nonempty [OF conjunct1 [OF b] conjunct1 [OF v]]
  have p: "obj ''project'' \<noteq> None" by simp
  from bindString_nonempty [OF conjunct1 [OF conjunct2 [OF b]] conjunct1 [OF conjunct2 [OF v]]]
  have s: "obj ''secret_type'' = Some (VString (SecretType req))" .
  from v have "SecretType req = ''access_token'' \<or> SecretType req = ''service_account_key''"
    by simp
  with s p show ?thesis by auto
qed

lemma Handler_CreateRoleset_rejected:
  assumes "ShouldBindJSON_RolesetRequest body = Inl err"
  shows "\<exists>p. Handler_CreateRoleset codec gateway rolesetName body = ([], [], Responded 400 p)"
  using assms by (simp add: Handler_CreateRoleset_def)

text \<open>
  Claim C8. When the body of a create-roleset request is a JSON object whose
  \<^verbatim>\<open>secret_type\<close> is neither the string \<^verbatim>\<open>access_token\<close> nor the string
  \<^verbatim>\<open>service_account_key\<close>, or in which \<^verbatim>\<open>project\<close> or \<^verbatim>\<open>secret_type\<close> is missing, the
  handler responds 400, invokes no gateway operation and issues no upstream call.
\<close>

theorem Handler_CreateRoleset_invalid_request:
  assumes "body = Some obj"
    and "(obj ''secret_type'' \<noteq> Some (VString ''access_token'')
          \<and> obj ''secret_type'' \<noteq> Some (VString ''service_account_key''))
         \<or> obj ''project'' = None \<or> obj ''secret_type'' = None"
  shows "\<exists>p. Handler_CreateRoleset codec gateway rolesetName body = ([], [], Responded 400 p)"
proof (cases "ShouldBindJSON_RolesetRequest body")
  case (Inl err)
  then show ?thesis by (rule Handler_CreateRoleset_rejected)
next
  case (Inr req)
  with assms(1) have "ShouldBindJSON_RolesetRequest (Some obj) = Inr req" by simp
  from ShouldBindJSON_RolesetRequest_accepts [OF this] assms(2) have False by auto
  then show ?thesis ..
qed

theorem Handler_CreateRoleset_invalid_request_witness:
  "bodyBogus = Some [''secret_type'' \<mapsto> VString ''bogus'']
   \<and> (\<exists>p. Handler_CreateRoleset codecEmptyObject gatewayOk ''r2'' bodyBogus
             = ([], [], Responded 400 p))"
proof -
  have b: "bodyBogus = Some [''secret_type'' \<mapsto> VString ''bogus'']"
    by (simp add: bodyBogus_def)
  have h: "([''secret_type'' \<mapsto> VString ''bogus''] ''secret_type'' \<noteq> Some (VString ''access_token'')
          \<and> [''secret_type'' \<mapsto> VString ''bogus''] ''secret_type'' \<noteq> Some (VString ''service_account_key''))
         \<or> [''secret_type'' \<mapsto> VString ''bogus''] ''project'' = None
         \<or> [''secret_type'' \<mapsto> VString ''bogus''] ''secret_type'' = None"
    by simp
  from Handler_CreateRoleset_invalid_request [OF b h, of codecEmptyObject gatewayOk "''r2''"]
  have "\<exists>p. Handler_CreateRoleset codecEmptyObject gatewayOk ''r2'' bodyBogus
             = ([], [], Responded 400 p)" .
  with b show ?thesis by (intro conjI)
qed

subsection \<open>Create roleset: a request without bindings\<close>

lemma ShouldBindJSON_bodyR1:
  "ShouldBindJSON_RolesetRequest bodyR1 =
     Inr \<lparr>Project = ''p'', SecretType = ''access_token'', TokenScopes = [], Bindings = [],
          TTL = [], MaxTTL_r = []\<rparr>"
  by (simp add: ShouldBindJSON_RolesetRequest_def bodyR1_def validateRolesetRequest_def)

lemma json_Unmarshal_empty:
  "json_Unmarshal codec [] = None"
  by (simp add: json_Unmarshal_def)

text \<open>
  Claim C4. The create-roleset request \<^verbatim>\<open>POST /rolesets/r1\<close> with the body
  \<^verbatim>\<open>{"project":"p","secret_type":"access_token"}\<close>, which omits \<^verbatim>\<open>bindings\<close>: whatever the
  JSON codec and the gateway do, the handler responds 400 with
  \<^verbatim>\<open>Invalid bindings format\<close> and invokes no gateway operation, since it decodes the
  empty text of the bindings unconditionally.
\<close>

theorem Handler_CreateRoleset_omitted_bindings:
  "Handler_CreateRoleset codec gateway ''r1'' bodyR1 =
     ([], [], Responded 400 (H [(''error'', ''Invalid bindings format'')]))"
  by (simp add: Handler_CreateRoleset_def ShouldBindJSON_bodyR1 json_Unmarshal_empty)

subsection \<open>The context handed to the gateway\<close>

lemma ShouldBindJSON_bodyR1Bindings:
  "ShouldBindJSON_RolesetRequest bodyR1Bindings =
     Inr \<lparr>Project = ''p'', SecretType = ''access_token'', TokenScopes = [], Bindings = ''{}'',
          TTL = [], MaxTTL_r = []\<rparr>"
  by (simp add: ShouldBindJSON_RolesetRequest_def bodyR1Bindings_def validateRolesetRequest_def)

lemma codecEmptyObject_simps:
  "json_Unmarshal codecEmptyObject ''{}'' = Some (Some [])"
  "json_Marshal codecEmptyObject (Some kvs) = ''{}''"
  by (simp_all add: json_Unmarshal_def json_Marshal_def codecEmptyObject_def)

text \<open>
  Claim C5. The create-roleset request \<^verbatim>\<open>POST /rolesets/r1\<close> with the body
  \<^verbatim>\<open>{"project":"p","secret_type":"access_token","bindings":"{}"}\<close>: the handler invokes
  the gateway with the background context, which is neither derived from the context of
  the request nor bounded by a timeout.
\<close>

theorem Handler_CreateRoleset_background_context:
  "Handler_CreateRoleset codecEmptyObject gatewayOk ''r1'' bodyR1Bindings =
     ([GwCreateRoleset Background ''r1''
         \<lparr>Project = ''p'', SecretType = ''access_token'', TokenScopes = [], Bindings = ''{}'',
          TTL = [], MaxTTL_r = []\<rparr>],
      [CallWrite Background ''gcp/roleset/r1'' Map.empty],
      Responded 201 (H [(''message'', ''Roleset created successfully'')]))
   \<and> derivedFromRequest Background = False
   \<and> hasTimeout Background = False"
  by (simp add: Handler_CreateRoleset_def ShouldBindJSON_bodyR1Bindings codecEmptyObject_simps
        gatewayOk_def)

text \<open>
  The other handlers pass a context derived from the request's, with a timeout of 5, 15
  or 30 seconds.
\<close>

lemma sibling_handlers_contexts:
  "fst (Handler_HealthCheck api) = [GwHealthCheck (WithTimeout RequestContext 5)]"
  "fst (Handler_ListRolesets api) = [GwListRolesets (WithTimeout RequestContext 15)]"
  "rolesetName \<noteq> [] \<Longrightarrow> fst (Handler_GetAccessToken api rolesetName body)
     = [GwGetToken (WithTimeout RequestContext 30) rolesetName (bindTokenRequest body)]"
  "rolesetName \<noteq> [] \<Longrightarrow> fst (Handler_GetServiceAccountKey api rolesetName)
     = [GwGetServiceAccountKey (WithTimeout RequestContext 30) rolesetName]"
  "rolesetName \<noteq> [] \<Longrightarrow> fst (Handler_DeleteRoleset api rolesetName)
     = [GwDeleteRoleset (WithTimeout RequestContext 15) rolesetName]"
  by (simp_all add: Handler_HealthCheck_def Handler_ListRolesets_def Handler_GetAccessToken_def
        Handler_GetServiceAccountKey_def Handler_DeleteRoleset_def Let_def
        split: prod.splits result.splits)

subsection \<open>Type assertions and the recovery middleware\<close>

lemma assertString_None_iff:
  "(assertString v = None) = (\<forall>s. v \<noteq> Some (VString s))"
  by (cases v rule: assertString.cases) simp_all

lemma assertFloat64_None_iff:
  "(assertFloat64 v = None) = (\<forall>r. v \<noteq> Some (VFloat64 r))"
  by (cases v rule: assertFloat64.cases) simp_all

lemma assert_json_Number:
  "assertFloat64 (Some (VNumber n)) = None" "assertString (Some (VNumber n)) = None"
  by simp_all

lemma tokenResponse_Panic:
  assumes "assertString (m ''token'') = None \<or> assertString (m ''token_ttl'') = None
           \<or> assertFloat64 (m ''expires_at_seconds'') = None"
  shows "tokenResponse m = Panic"
  using assms by (auto simp: tokenResponse_def split: option.splits)

lemma keyResponse_Panic:
  assumes "assertString (m ''private_key_data'') = None \<or> assertString (m ''key_algorithm'') = None
           \<or> assertString (m ''key_type'') = None \<or> assertString (m ''key_id'') = None"
  shows "keyResponse m = Panic"
  using assms by (auto simp: keyResponse_def split: option.splits)

lemma GetToken_data:
  assumes "snd (tokenCall api ctx rolesetName ttl) = Inr (Some s)" and "Data s = Some m"
  shows "snd (GetToken api ctx rolesetName ttl) = tokenResponse m"
  using assms by (auto simp: GetToken_def split: prod.splits)

lemma GetServiceAccountKey_data:
  assumes "ReadWithContext api ctx (''gcp/key/'' @ rolesetName) = Inr (Some s)"
    and "Data s = Some m"
  shows "snd (GetServiceAccountKey api ctx rolesetName) = keyResponse m"
  using assms by (simp add: GetServiceAccountKey_def Let_def)

lemma Handler_GetAccessToken_Panic:
  assumes "rolesetName \<noteq> []"
    and "snd (GetToken api (WithTimeout RequestContext 30) rolesetName (bindTokenRequest body)) = Panic"
  shows "snd (snd (Handler_GetAccessToken api rolesetName body)) = Panicked"
  using assms by (auto simp: Handler_GetAccessToken_def Let_def split: prod.splits)

lemma Handler_GetServiceAccountKey_Panic:
  assumes "rolesetName \<noteq> []"
    and "snd (GetServiceAccountKey api (WithTimeout RequestContext 30) rolesetName) = Panic"
  shows "snd (snd (Handler_GetServiceAccountKey api rolesetName)) = Panicked"
  using assms by (auto simp: Handler_GetServiceAccountKey_def Let_def split: prod.splits)

lemma ErrorHandlingMiddleware_Panicked:
  assumes "snd (snd next_handler) = Panicked"
  shows "snd (snd (ErrorHandlingMiddleware next_handler))
           = Responded 500 (ErrorResponse ''Internal server error'' [])"
  using assms by (auto simp: ErrorHandlingMiddleware_def split: prod.splits)

text \<open>
  Claim C10. When the upstream response of \<open>GetToken\<close> or \<open>GetServiceAccountKey\<close> is a
  secret with data in which a field read by a type assertion (\<^verbatim>\<open>token\<close>, \<^verbatim>\<open>token_ttl\<close>,
  \<^verbatim>\<open>expires_at_seconds\<close>; \<^verbatim>\<open>private_key_data\<close>, \<^verbatim>\<open>key_algorithm\<close>, \<^verbatim>\<open>key_type\<close>,
  \<^verbatim>\<open>key_id\<close>) is absent or of another dynamic type, the operation panics and does not
  return its error \<^verbatim>\<open>no token data returned\<close> or \<^verbatim>\<open>no key data returned\<close>; and when the
  operation called by a handler panics, the recovery middleware responds 500 with
  \<^verbatim>\<open>Internal server error\<close> and no details. An \<^verbatim>\<open>expires_at_seconds\<close> that is a
  \<^verbatim>\<open>json.Number\<close>, as the Vault client delivers it, is of another dynamic type than
  \<^verbatim>\<open>float64\<close>, so a response complete in all three fields of the token falls under this
  too.
\<close>

theorem missing_field_faults:
  "(snd (tokenCall api ctx rolesetName ttl) = Inr (Some s) \<and> Data s = Some m
      \<and> (assertString (m ''token'') = None \<or> assertString (m ''token_ttl'') = None
         \<or> assertFloat64 (m ''expires_at_seconds'') = None)
      \<longrightarrow> snd (GetToken api ctx rolesetName ttl) = Panic
          \<and> snd (GetToken api ctx rolesetName ttl) \<noteq> Error ''no token data returned'')
   \<and> (ReadWithContext api ctx (''gcp/key/'' @ rolesetName) = Inr (Some s) \<and> Data s = Some m
      \<and> (assertString (m ''private_key_data'') = None \<or> assertString (m ''key_algorithm'') = None
         \<or> assertString (m ''key_type'') = None \<or> assertString (m ''key_id'') = None)
      \<longrightarrow> snd (GetServiceAccountKey api ctx rolesetName) = Panic
          \<and> snd (GetServiceAccountKey api ctx rolesetName) \<noteq> Error ''no key data returned'')
   \<and> (rolesetName \<noteq> []
      \<and> snd (GetToken api (WithTimeout RequestContext 30) rolesetName (bindTokenRequest body)) = Panic
      \<longrightarrow> snd (snd (ErrorHandlingMiddleware (Handler_GetAccessToken api rolesetName body)))
            = Responded 500 (ErrorResponse ''Internal server error'' []))
   \<and> (rolesetName \<noteq> []
      \<and> snd (GetServiceAccountKey api (WithTimeout RequestContext 30) rolesetName) = Panic
      \<longrightarrow> snd (snd (ErrorHandlingMiddleware (Handler_GetServiceAccountKey api rolesetName)))
            = Responded 500 (ErrorResponse ''Internal server error'' []))"
proof (intro conjI impI)
  assume a: "snd (tokenCall api ctx rolesetName ttl) = Inr (Some s) \<and> Data s = Some m
      \<and> (assertString (m ''token'') = None \<or> assertString (m ''token_ttl'') = None
         \<or> assertFloat64 (m ''expires_at_seconds'') = None)"
  then have "snd (GetToken api ctx rolesetName ttl) = tokenResponse m"
    by (simp add: GetToken_data)
  with a show t: "snd (GetToken api ctx rolesetName ttl) = Panic"
    by (simp add: tokenResponse_Panic)
  show "snd (GetToken api ctx rolesetName ttl) \<noteq> Error ''no token data returned''"
    by (simp add: t)
next
  assume a: "ReadWithContext api ctx (''gcp/key/'' @ rolesetName) = Inr (Some s) \<and> Data s = Some m
      \<and> (assertString (m ''private_key_data'') = None \<or> assertString (m ''key_algorithm'') = None
         \<or> assertString (m ''key_type'') = None \<or> assertString (m ''key_id'') = None)"
  then have "snd (GetServiceAccountKey api ctx rolesetName) = keyResponse m"
    by (simp add: GetServiceAccountKey_data)
  with a show k: "snd (GetServiceAccountKey api ctx rolesetName) = Panic"
    by (simp add: keyResponse_Panic)
  show "snd (GetServiceAccountKey api ctx rolesetName) \<noteq> Error ''no key data returned''"
    by (simp add: k)
next
  assume "rolesetName \<noteq> []
      \<and> snd (GetToken api (WithTimeout RequestContext 30) rolesetName (bindTokenRequest body)) = Panic"
  then have "snd (snd (Handler_GetAccessToken api rolesetName body)) = Panicked"
    by (simp add: Handler_GetAccessToken_Panic)
  then show "snd (snd (ErrorHandlingMiddleware (Handler_GetAccessToken api rolesetName body)))
            = Responded 500 (ErrorResponse ''Internal server error'' [])"
    by (rule ErrorHandlingMiddleware_Panicked)
next
  assume "rolesetName \<noteq> []
      \<and> snd (GetServiceAccountKey api (WithTimeout RequestContext 30) rolesetName) = Panic"
  then have "snd (snd (Handler_GetServiceAccountKey api rolesetName)) = Panicked"
    by (simp add: Handler_GetServiceAccountKey_Panic)
  then show "snd (snd (ErrorHandlingMiddleware (Handler_GetServiceAccountKey api rolesetName)))
            = Responded 500 (ErrorResponse ''Internal server error'' [])"
    by (rule ErrorHandlingMiddleware_Panicked)
qed

theorem missing_field_faults_witness:
  "snd (GetToken apiPartialData (WithTimeout RequestContext 30) ''r1'' []) = Panic
   \<and> snd (GetServiceAccountKey apiPartialData (WithTimeout RequestContext 30) ''r1'') = Panic
   \<and> snd (snd (ErrorHandlingMiddleware (Handler_GetAccessToken apiPartialData ''r1'' None)))
       = Responded 500 (ErrorResponse ''Internal server error'' [])
   \<and> snd (snd (ErrorHandlingMiddleware (Handler_GetServiceAccountKey apiPartialData ''r1'')))
       = Responded 500 (ErrorResponse ''Internal server error'' [])
   \<and> snd (GetToken apiNumberData (WithTimeout RequestContext 30) ''r1'' []) = Panic
   \<and> snd (snd (ErrorHandlingMiddleware (Handler_GetAccessToken apiNumberData ''r1'' None)))
       = Responded 500 (ErrorResponse ''Internal server error'' [])"
proof -
  let ?c = "WithTimeout RequestContext 30"
  let ?m = "[''token'' \<mapsto> VString ''ya29'', ''private_key_data'' \<mapsto> VString ''a2V5'']"
  let ?s = "\<lparr>Data = Some ?m\<rparr>"
  note th = missing_field_faults [of apiPartialData ?c "''r1''" "[]" ?s ?m None]
  have c: "snd (tokenCall apiPartialData ?c ''r1'' []) = Inr (Some ?s)"
    by (simp add: tokenCall_def apiPartialData_def)
  have r: "ReadWithContext apiPartialData ?c (''gcp/key/'' @ ''r1'') = Inr (Some ?s)"
    by (simp add: apiPartialData_def)
  have d: "Data ?s = Some ?m" by simp
  have f: "assertString (?m ''token_ttl'') = None" "assertString (?m ''key_algorithm'') = None"
    by simp_all
  have b: "bindTokenRequest None = []" by (simp add: bindTokenRequest_def)
  have n: "''r1'' \<noteq> []" by simp
  from conjunct1 [OF th] c d f(1)
  have t: "snd (GetToken apiPartialData ?c ''r1'' []) = Panic" by blast
  from conjunct1 [OF conjunct2 [OF th]] r d f(2)
  have k: "snd (GetServiceAccountKey apiPartialData ?c ''r1'') = Panic" by blast
  from conjunct1 [OF conjunct2 [OF conjunct2 [OF th]]] n t b
  have ht: "snd (snd (ErrorHandlingMiddleware (Handler_GetAccessToken apiPartialData ''r1'' None)))
       = Responded 500 (ErrorResponse ''Internal server error'' [])" by simp
  from conjunct2 [OF conjunct2 [OF conjunct2 [OF th]]] n k
  have hk: "snd (snd (ErrorHandlingMiddleware (Handler_GetServiceAccountKey apiPartialData ''r1'')))
       = Responded 500 (ErrorResponse ''Internal server error'' [])" by simp
  let ?m' = "[''token'' \<mapsto> VString ''ya29'', ''token_ttl'' \<mapsto> VString ''3599s'',
              ''expires_at_seconds'' \<mapsto> VNumber ''1700000000'']"
  let ?s' = "\<lparr>Data = Some ?m'\<rparr>"
  note th' = missing_field_faults [of apiNumberData ?c "''r1''" "[]" ?s' ?m' None]
  have c': "snd (tokenCall apiNumberData ?c ''r1'' []) = Inr (Some ?s')"
    by (simp add: tokenCall_def apiNumberData_def)
  have d': "Data ?s' = Some ?m'" by simp
  have f': "assertFloat64 (?m' ''expires_at_seconds'') = None"
    by simp
  from conjunct1 [OF th'] c' d' f'
  have t': "snd (GetToken apiNumberData ?c ''r1'' []) = Panic" by blast
  from conjunct1 [OF conjunct2 [OF conjunct2 [OF th']]] n t' b
  have ht': "snd (snd (ErrorHandlingMiddleware (Handler_GetAccessToken apiNumberData ''r1'' None)))
       = Responded 500 (ErrorResponse ''Internal server error'' [])" by simp
  from t k ht hk t' ht' show ?thesis by (intro conjI)
qed

end
